theory Spec2Isabelle
  imports Main
begin

section \<open>JavaScript values and plain objects\<close>

text \<open>
  The query-construction code of the Jobly backend works on plain JavaScript objects whose
  properties hold scalars. A value is one of the primitives below, a built-in function
  (named by its \<open>name\<close>) or the object \<open>Object.prototype\<close>; the last two are what a plain
  object inherits. A number is an integer (the employee counts, salaries and array positions
  the code handles): \<open>NaN\<close>, fractions and infinities have no counterpart here.

  An object is the list of its own properties in the order \<open>Object.keys\<close> and
  \<open>Object.values\<close> enumerate them; its prototype is \<open>Object.prototype\<close>, as for an object
  literal and for a parsed request body.
\<close>

datatype jsval = JUndefined | JNull | JBool bool | JNum int | JStr string
  | JFunction string | JObjectPrototype

type_synonym jsobj = "(string \<times> jsval) list"

text \<open>
  \<open>js_get\<close> is the read of a property by a name written in the code (\<open>user.isAdmin\<close>,
  \<open>const {minEmployees, maxEmployees, name} = searchCriteria\<close>). None of the names the
  code writes is a property of \<open>Object.prototype\<close>, so the read finds the own property or
  \<open>undefined\<close>.
\<close>

definition js_get :: "jsobj \<Rightarrow> string \<Rightarrow> jsval" where
  "js_get obj k = (case map_of obj k of None \<Rightarrow> JUndefined | Some v \<Rightarrow> v)"

text \<open>
  \<open>js_index\<close> is the read \<open>obj[k]\<close> for a key computed at run time. It finds the own
  property, and otherwise what the object inherits from \<open>Object.prototype\<close>: eleven
  built-in functions and, under \<open>__proto__\<close>, the prototype itself.
\<close>

definition object_prototype_names :: "string list" where
  "object_prototype_names =
     [''constructor'', ''__defineGetter__'', ''__defineSetter__'', ''hasOwnProperty'',
      ''__lookupGetter__'', ''__lookupSetter__'', ''isPrototypeOf'', ''propertyIsEnumerable'',
      ''toString'', ''valueOf'', ''__proto__'', ''toLocaleString'']"

definition inherited :: "string \<Rightarrow> jsval" where
  "inherited k =
     (if k \<notin> set object_prototype_names then JUndefined
      else if k = ''__proto__'' then JObjectPrototype
      else if k = ''constructor'' then JFunction ''Object''
      else JFunction k)"

definition js_index :: "jsobj \<Rightarrow> string \<Rightarrow> jsval" where
  "js_index obj k = (case map_of obj k of None \<Rightarrow> inherited k | Some v \<Rightarrow> v)"

text \<open>\<open>if (v)\<close>, \<open>!v\<close> and \<open>v || w\<close> test truthiness.\<close>

fun js_truthy :: "jsval \<Rightarrow> bool" where
  "js_truthy JUndefined = False"
| "js_truthy JNull = False"
| "js_truthy (JBool b) = b"
| "js_truthy (JNum n) = (n \<noteq> 0)"
| "js_truthy (JStr s) = (s \<noteq> [])"
| "js_truthy (JFunction f) = True"
| "js_truthy JObjectPrototype = True"

text \<open>
  The text a template literal \<open>${v}\<close> puts for a value. An integer is written in decimal
  digits; this is what JavaScript writes for integers below \<open>10^21\<close>, from there on it
  writes an exponent, which is not modelled (the theorems of the claims are stated without
  the text of a number other than a placeholder index). A built-in function reads \<open>function f() { [native code] }\<close>, as Node prints it.
\<close>

definition digit_char :: "nat \<Rightarrow> char" where
  "digit_char d = ''0123456789'' ! d"

fun decimal_digits :: "nat \<Rightarrow> string \<Rightarrow> string" where
  "decimal_digits n acc =
     (if n < 10 then digit_char n # acc
      else decimal_digits (n div 10) (digit_char (n mod 10) # acc))"

definition string_of_nat :: "nat \<Rightarrow> string" where
  "string_of_nat n = decimal_digits n []"

definition number_to_string :: "int \<Rightarrow> string" where
  "number_to_string i =
     (if 0 \<le> i then string_of_nat (nat i) else CHR ''-'' # string_of_nat (nat (- i)))"

fun js_to_string :: "jsval \<Rightarrow> string" where
  "js_to_string JUndefined = ''undefined''"
| "js_to_string JNull = ''null''"
| "js_to_string (JBool b) = (if b then ''true'' else ''false'')"
| "js_to_string (JNum n) = number_to_string n"
| "js_to_string (JStr s) = s"
| "js_to_string (JFunction f) = ''function '' @ f @ ''() { [native code] }''"
| "js_to_string JObjectPrototype = ''[object Object]''"

text \<open>
  The relational comparison \<open>a > b\<close>: a function or an object is first replaced by its
  text; two strings compare by code units, anything else compares as numbers and is false
  when a side is not a number. \<open>ToNumber\<close> of a string is modelled on decimal integer
  literals with optional sign and surrounding blanks, read exactly. The other literal forms
  (fraction, exponent, hexadecimal, \<open>Infinity\<close>) and the rounding of integers beyond
  \<open>2^53\<close> are not modelled, so the comparison of a string with a number is the code's only
  for such literals; the properties below compare numbers with numbers.
\<close>

definition is_ws :: "char \<Rightarrow> bool" where
  "is_ws c = (c \<in> set [CHR '' '', CHR 0x09, CHR 0x0A, CHR 0x0B, CHR 0x0C, CHR 0x0D])"

definition is_digit :: "char \<Rightarrow> bool" where
  "is_digit c = (c \<in> set ''0123456789'')"

definition digits_to_nat :: "string \<Rightarrow> nat" where
  "digits_to_nat ds = foldl (\<lambda>a c. 10 * a + (of_char c - 48)) 0 ds"

definition trim :: "string \<Rightarrow> string" where
  "trim s = rev (dropWhile is_ws (rev (dropWhile is_ws s)))"

definition unsigned_literal :: "string \<Rightarrow> nat option" where
  "unsigned_literal ds =
     (if ds \<noteq> [] \<and> list_all is_digit ds then Some (digits_to_nat ds) else None)"

definition string_to_number :: "string \<Rightarrow> int option" where
  "string_to_number s =
     (case trim s of
        [] \<Rightarrow> Some 0
      | c # ds \<Rightarrow>
          if c = CHR ''-'' then map_option (\<lambda>n. - int n) (unsigned_literal ds)
          else if c = CHR ''+'' then map_option int (unsigned_literal ds)
          else map_option int (unsigned_literal (c # ds)))"

fun js_to_number :: "jsval \<Rightarrow> int option" where
  "js_to_number JUndefined = None"
| "js_to_number JNull = Some 0"
| "js_to_number (JBool b) = Some (if b then 1 else 0)"
| "js_to_number (JNum n) = Some n"
| "js_to_number (JStr s) = string_to_number s"
| "js_to_number (JFunction f) = string_to_number (js_to_string (JFunction f))"
| "js_to_number JObjectPrototype = string_to_number (js_to_string JObjectPrototype)"

fun str_lt :: "string \<Rightarrow> string \<Rightarrow> bool" where
  "str_lt [] [] = False"
| "str_lt [] (y # ys) = True"
| "str_lt (x # xs) [] = False"
| "str_lt (x # xs) (y # ys) =
     ((of_char x :: nat) < of_char y \<or> (x = y \<and> str_lt xs ys))"

fun js_to_primitive :: "jsval \<Rightarrow> jsval" where
  "js_to_primitive (JFunction f) = JStr (js_to_string (JFunction f))"
| "js_to_primitive JObjectPrototype = JStr (js_to_string JObjectPrototype)"
| "js_to_primitive v = v"

fun primitive_lt :: "jsval \<Rightarrow> jsval \<Rightarrow> bool" where
  "primitive_lt (JStr s) (JStr t) = str_lt s t"
| "primitive_lt a b =
     (case (js_to_number a, js_to_number b) of
        (Some m, Some n) \<Rightarrow> m < n
      | _ \<Rightarrow> False)"

definition js_lt :: "jsval \<Rightarrow> jsval \<Rightarrow> bool" where
  "js_lt a b = primitive_lt (js_to_primitive a) (js_to_primitive b)"

definition js_gt :: "jsval \<Rightarrow> jsval \<Rightarrow> bool" where
  "js_gt a b = js_lt b a"

text \<open>\<open>Array.prototype.join\<close> on an array of strings, and \<open>Array.prototype.map\<close> with
  the element's index as the callback's second argument.\<close>

fun join :: "string \<Rightarrow> string list \<Rightarrow> string" where
  "join sep [] = []"
| "join sep [x] = x"
| "join sep (x # y # ys) = x @ sep @ join sep (y # ys)"

fun map_idx :: "('a \<Rightarrow> nat \<Rightarrow> 'b) \<Rightarrow> nat \<Rightarrow> 'a list \<Rightarrow> 'b list" where
  "map_idx f i [] = []"
| "map_idx f i (x # xs) = f x i # map_idx f (Suc i) xs"

section \<open>Errors\<close>

text \<open>The error classes of \<open>expressError\<close> that the modelled code raises; a
  \<open>BadRequestError\<close> carries its message.\<close>

datatype error = BadRequestError string | UnauthorizedError | ForbiddenError

section \<open>helpers/sql.js: sqlForPartialUpdate\<close>

text \<open>
  \<open>dataToUpdate\<close> is the change set, \<open>jsToSql\<close> the field map. The column of a key is
  \<open>jsToSql[colName] || colName\<close>; the token of the key at position \<open>idx\<close> is the template
  literal \<open>"<column>"=$<idx + 1>\<close>. The helper writes a key between the quotes as it is;
  checking the keys against a schema is the caller's part.
\<close>

record update_clause =
  setCols :: string
  values' :: "jsval list"

definition column_name :: "jsobj \<Rightarrow> string \<Rightarrow> string" where
  "column_name jsToSql colName =
     (let mapped = js_index jsToSql colName
      in if js_truthy mapped then js_to_string mapped else colName)"

definition assign_token :: "string \<Rightarrow> nat \<Rightarrow> string" where
  \<open>assign_token col idx = ''"'' @ col @ ''"=$'' @ string_of_nat (idx + 1)\<close>

definition sqlForPartialUpdate :: "jsobj \<Rightarrow> jsobj \<Rightarrow> error + update_clause" where
  "sqlForPartialUpdate dataToUpdate jsToSql =
     (let keys = map fst dataToUpdate
      in if length keys = 0 then Inl (BadRequestError ''No data'')
         else
           let cols = map_idx (\<lambda>colName idx. assign_token (column_name jsToSql colName) idx) 0 keys
           in Inr \<lparr>setCols = join '', '' cols, values' = map snd dataToUpdate\<rparr>)"



text \<open>
  The column resolution as the specification words it ("look up the field map; if absent,
  use the key itself"), for comparison with \<open>column_name\<close>.
\<close>

definition spec_column_name :: "jsobj \<Rightarrow> string \<Rightarrow> string" where
  "spec_column_name fieldMap key =
     (case map_of fieldMap key of None \<Rightarrow> key | Some mapped \<Rightarrow> js_to_string mapped)"

section \<open>The company model: Company.findAll\<close>

text \<open>
  What the model hands to \<open>db.query\<close>: the query text and the positional parameters.
\<close>

record db_query =
  queryText :: string
  parameters :: "jsval list"

text \<open>
  The two statements \<open>parameters.push(v); filters.push(`<predicate> $${parameters.length}`)\<close>
  on the pair of arrays; \<open>predicate\<close> is the constant text of the template before the
  placeholder index.
\<close>

definition push_filter ::
  "string \<Rightarrow> jsval \<Rightarrow> string list \<times> jsval list \<Rightarrow> string list \<times> jsval list" where
  "push_filter predicate v st =
     (let params = snd st @ [v]
      in (fst st @ [predicate @ string_of_nat (length params)], params))"

definition wildcard :: "jsval \<Rightarrow> jsval" where
  "wildcard v = JStr (''%'' @ js_to_string v @ ''%'')"

definition Company_baseQuery :: string where
  \<open>Company_baseQuery =
     ''\<newline>    SELECT handle, name, description, num_employees AS "numEmployees", logo_url AS "logoUrl"'' @
     ''\<newline>    FROM companies''\<close>

definition Company_filters :: "jsobj \<Rightarrow> string list \<times> jsval list" where
  "Company_filters searchCriteria =
     (let minEmployees = js_get searchCriteria ''minEmployees'';
          maxEmployees = js_get searchCriteria ''maxEmployees'';
          name = js_get searchCriteria ''name'';
          st0 = ([], []);
          st1 = (if minEmployees \<noteq> JUndefined
                 then push_filter ''num_employees >= $'' minEmployees st0 else st0);
          st2 = (if maxEmployees \<noteq> JUndefined
                 then push_filter ''num_employees <= $'' maxEmployees st1 else st1);
          st3 = (if js_truthy name
                 then push_filter ''name ILIKE $'' (wildcard name) st2 else st2)
      in st3)"

definition Company_findAll :: "jsobj \<Rightarrow> error + db_query" where
  "Company_findAll searchCriteria =
     (let minEmployees = js_get searchCriteria ''minEmployees'';
          maxEmployees = js_get searchCriteria ''maxEmployees''
      in if minEmployees \<noteq> JUndefined \<and> maxEmployees \<noteq> JUndefined
            \<and> js_gt minEmployees maxEmployees
         then Inl (BadRequestError ''Minimum employees cannot exceed maximum employees'')
         else
           let (filters, params) = Company_filters searchCriteria;
               q1 = (if length filters > 0
                     then Company_baseQuery @ '' WHERE '' @ join '' AND '' filters
                     else Company_baseQuery)
           in Inr \<lparr>queryText = q1 @ '' ORDER BY name'', parameters = params\<rparr>)"

section \<open>The job model with filters: Job.findAll and Job.update\<close>

definition Job_query :: string where
  \<open>Job_query =
     ''\<newline>      SELECT j.id, j.title, j.salary, j.equity, '' @
     ''\<newline>             j.company_handle AS "companyHandle", '' @
     ''\<newline>             c.name AS "companyName"'' @
     ''\<newline>      FROM jobs j'' @
     ''\<newline>      LEFT JOIN companies AS c ON c.handle = j.company_handle''\<close>

definition Job_conditions :: "jsobj \<Rightarrow> string list \<times> jsval list" where
  "Job_conditions filters =
     (let minSalary = js_get filters ''minSalary'';
          hasEquity = js_get filters ''hasEquity'';
          title = js_get filters ''title'';
          st0 = ([], []);
          st1 = (if minSalary \<noteq> JUndefined
                 then push_filter ''salary >= $'' minSalary st0 else st0);
          st2 = (if js_truthy hasEquity then (fst st1 @ [''equity > 0''], snd st1) else st1);
          st3 = (if js_truthy title
                 then push_filter ''title ILIKE $'' (wildcard title) st2 else st2)
      in st3)"

definition Job_findAll :: "jsobj \<Rightarrow> db_query" where
  "Job_findAll filters =
     (let (conditions, vals) = Job_conditions filters;
          q1 = (if length conditions \<noteq> 0
                then Job_query @ '' WHERE '' @ join '' AND '' conditions
                else Job_query)
      in \<lparr>queryText = q1 @ '' ORDER BY title'', parameters = vals\<rparr>)"


section \<open>models/job.js: Job.searchAll\<close>

text \<open>
  \<open>searchAll\<close> reads and then deletes \<open>fields.hasEquity\<close> on the caller's object, so the
  model returns the object as the call leaves it together with the outcome. The helper
  \<open>sqlForQuery\<close> it calls for the remaining fields is not among the functions of
  \<open>helpers/sql.js\<close>; it is a parameter here, given the object and the rule table of the
  call, and it either fails or returns \<open>{whereClause, values}\<close>. The argument
  \<open>fields\<close> is \<open>fields0\<close> as the caller passes it and \<open>fields1\<close> after the deletion.
\<close>

record where_clause =
  whereClause :: string
  whereValues :: "jsval list"

record filter_rule =
  colname :: string
  operator :: string

definition Job_search_rules :: "(string \<times> filter_rule) list" where
  "Job_search_rules =
     [(''title'', \<lparr>colname = ''title'', operator = ''ILIKE''\<rparr>),
      (''minSalary'', \<lparr>colname = ''salary'', operator = ''>=''\<rparr>)]"

definition js_delete :: "jsobj \<Rightarrow> string \<Rightarrow> jsobj" where
  "js_delete obj k = filter (\<lambda>p. fst p \<noteq> k) obj"

definition searchAll_query :: "string \<Rightarrow> string" where
  \<open>searchAll_query finalWhereClause =
     ''SELECT id,'' @
     ''\<newline>              title,'' @
     ''\<newline>              salary,'' @
     ''\<newline>              equity,'' @
     ''\<newline>              company_handle AS "companyHandle"'' @
     ''\<newline>       FROM jobs'' @
     ''\<newline>       WHERE '' @ finalWhereClause @
     ''\<newline>       ORDER BY id''\<close>

definition searchAll ::
  "(jsobj \<Rightarrow> (string \<times> filter_rule) list \<Rightarrow> error + where_clause) \<Rightarrow> jsobj
     \<Rightarrow> jsobj \<times> (error + db_query)" where
  "searchAll sqlForQuery fields0 =
     (let equityClause =
            (if js_truthy (js_get fields0 ''hasEquity'') then Some ''equity > 0'' else None);
          fields1 = js_delete fields0 ''hasEquity''
      in if length (map fst fields1) = 0
         then (fields1,
               Inr \<lparr>queryText =
                      searchAll_query (case equityClause of Some c \<Rightarrow> c | None \<Rightarrow> []),
                    parameters = []\<rparr>)
         else (case sqlForQuery fields1 Job_search_rules of
                 Inl e \<Rightarrow> (fields1, Inl e)
               | Inr w \<Rightarrow>
                   (fields1,
                    Inr \<lparr>queryText =
                           searchAll_query
                             (case equityClause of
                                Some c \<Rightarrow> whereClause w @ '' AND '' @ c
                              | None \<Rightarrow> whereClause w),
                         parameters = whereValues w\<rparr>)))"

section \<open>middleware/auth.js: ensureAdmin and ensureAdminOrSelf\<close>

text \<open>
  \<open>res.locals.user\<close> is the verified token payload, or absent. A middleware's outcome is
  the argument it passes to \<open>next\<close>: an error, or nothing.
\<close>

definition ensureAdmin :: "jsobj option \<Rightarrow> error option" where
  "ensureAdmin user =
     (case user of
        None \<Rightarrow> Some UnauthorizedError
      | Some u \<Rightarrow> if \<not> js_truthy (js_get u ''isAdmin'') then Some UnauthorizedError else None)"

definition ensureAdminOrSelf :: "jsobj option \<Rightarrow> jsval \<Rightarrow> error option" where
  "ensureAdminOrSelf user params_username =
     (case user of
        None \<Rightarrow> Some UnauthorizedError
      | Some u \<Rightarrow>
          let username = js_get u ''username'';
              isAdmin = js_get u ''isAdmin''
          in if \<not> js_truthy isAdmin \<and> username \<noteq> params_username
             then Some ForbiddenError else None)"

section \<open>The storage collaborator\<close>

text \<open>
  Modelled from the spec: the storage collaborator behind \<open>db.query\<close> (the database and its
  driver) is not part of the repository. The spec gives its contract: it receives the query
  text and the ordered parameters, position \<open>i\<close> of the parameters belongs to the
  placeholder \<open>$i\<close>, and an update sets the assigned columns of the rows its condition
  selects. The model is a function of the query text and the parameters alone; it reads the
  text the way a SQL database does, as far as the \<open>UPDATE\<close> statements of the models go.

  Blanks separate tokens. A token in double quotes is an identifier and one in single quotes
  a string literal, a doubled quote inside standing for one quote character; \<open>$\<close> followed by
  digits is a placeholder; digits are a number; letters, digits and underscores are a word;
  any other character is a token of its own.
\<close>

datatype token = Quoted string | Word string | Param nat | Number nat | Literal string | Sym char

definition is_letter :: "char \<Rightarrow> bool" where
  "is_letter c = (c \<in> set ''abcdefghijklmnopqrstuvwxyzABCDEFGHIJKLMNOPQRSTUVWXYZ_'')"

definition is_word :: "char \<Rightarrow> bool" where
  "is_word c = (is_letter c \<or> is_digit c)"

fun quoted :: "char \<Rightarrow> string \<Rightarrow> (string \<times> string) option" where
  "quoted q [] = None"
| "quoted q [c] = (if c = q then Some ([], []) else None)"
| "quoted q (c # d # cs) =
     (if c = q
      then (if d = q then map_option (apfst ((#) q)) (quoted q cs) else Some ([], d # cs))
      else map_option (apfst ((#) c)) (quoted q (d # cs)))"

text \<open>What follows a closing quote is shorter than the text: \<open>tokens\<close> terminates.\<close>

lemma quoted_shorter: "quoted q s = Some (name, rest) \<Longrightarrow> length rest < length s"
proof (induction q s arbitrary: name rest rule: quoted.induct)
  case (1 q)
  then show ?case by simp
next
  case (2 q c)
  then show ?case by (simp split: if_splits)
next
  case (3 q c d cs)
  show ?case
  proof (cases "c = q")
    case True
    show ?thesis
    proof (cases "d = q")
      case dq: True
      with True "3.prems" obtain n where "quoted q cs = Some (n, rest)"
        by (auto simp: map_option_case split: option.splits)
      from "3.IH"(1) [OF True dq this] show ?thesis by simp
    next
      case False
      with True "3.prems" show ?thesis by simp
    qed
  next
    case False
    with "3.prems" obtain n where "quoted q (d # cs) = Some (n, rest)"
      by (auto simp: map_option_case split: option.splits)
    from "3.IH"(2) [OF False this] show ?thesis by simp
  qed
qed

function tokens :: "string \<Rightarrow> token list option" where
  "tokens [] = Some []"
| "tokens (c # cs) =
     (if is_ws c then tokens cs
      else if c = CHR 0x22 then
        (case quoted c cs of
           None \<Rightarrow> None
         | Some (name, rest) \<Rightarrow> map_option ((#) (Quoted name)) (tokens rest))
      else if c = CHR 0x27 then
        (case quoted c cs of
           None \<Rightarrow> None
         | Some (text, rest) \<Rightarrow> map_option ((#) (Literal text)) (tokens rest))
      else if c = CHR ''$'' then
        (if takeWhile is_digit cs = [] then None
         else map_option ((#) (Param (digits_to_nat (takeWhile is_digit cs))))
                (tokens (dropWhile is_digit cs)))
      else if is_digit c then
        map_option ((#) (Number (digits_to_nat (c # takeWhile is_digit cs))))
          (tokens (dropWhile is_digit cs))
      else if is_letter c then
        map_option ((#) (Word (c # takeWhile is_word cs))) (tokens (dropWhile is_word cs))
      else map_option ((#) (Sym c)) (tokens cs))"
  by pat_completeness auto
termination
proof (relation "measure length")
  show "wf (measure length)" by simp
qed (auto dest: quoted_shorter intro: le_imp_less_Suc length_dropWhile_le)











section \<open>Vocabulary of the properties\<close>






text \<open>
  The clause as the specification words it: one token per key, in key order, with the
  column resolved by \<open>spec_column_name\<close>.
\<close>

definition spec_setCols :: "jsobj \<Rightarrow> jsobj \<Rightarrow> string" where
  \<open>spec_setCols changeSet fieldMap =
     join '', ''
       (map_idx (\<lambda>key i. ''"'' @ spec_column_name fieldMap key @ ''"=$'' @ string_of_nat (i + 1))
          0 (map fst changeSet))\<close>



section \<open>Auxiliary facts\<close>

subsection \<open>Decimal rendering\<close>

lemma string_of_nat_examples:
  "string_of_nat 0 = ''0''" "string_of_nat 7 = ''7''" "string_of_nat 10 = ''10''"
  "string_of_nat 2024 = ''2024''"
  by (simp_all add: string_of_nat_def digit_char_def)

subsection \<open>Mapping with indices\<close>

lemma length_map_idx: "length (map_idx f i xs) = length xs"
  by (induction xs arbitrary: i) simp_all

lemma nth_map_idx: "k < length xs \<Longrightarrow> map_idx f i xs ! k = f (xs ! k) (i + k)"
proof (induction xs arbitrary: i k)
  case Nil
  then show ?case by simp
next
  case (Cons x xs)
  show ?case
  proof (cases k)
    case 0
    then show ?thesis by simp
  next
    case (Suc j)
    with Cons.prems have "j < length xs" by simp
    from Cons.IH [OF this, of "Suc i"] Suc show ?thesis by simp
  qed
qed



subsection \<open>The clause of sqlForPartialUpdate\<close>

lemma sqlForPartialUpdate_nonempty:
  assumes "C \<noteq> []"
  shows "sqlForPartialUpdate C M =
           Inr \<lparr>setCols = join '', ''
                   (map_idx (\<lambda>colName idx. assign_token (column_name M colName) idx) 0 (map fst C)),
                 values' = map snd C\<rparr>"
  using assms by (simp add: sqlForPartialUpdate_def)






subsection \<open>Numbered predicates\<close>













subsection \<open>Property reads and deletion\<close>

lemma js_get_cong: "map_of a = map_of b \<Longrightarrow> js_get a = js_get b"
  by (simp add: js_get_def fun_eq_iff)

lemma map_of_js_delete: "map_of (js_delete obj k) = (map_of obj)(k := None)"
  by (induction obj) (auto simp: js_delete_def fun_eq_iff)

lemma fst_searchAll: "fst (searchAll sqlForQuery fields0) = js_delete fields0 ''hasEquity''"
  by (simp add: searchAll_def Let_def split: sum.splits)

subsection \<open>Decimal digits read back\<close>











subsection \<open>The tokens of the statement of Job.update\<close>


declare tokens.simps [simp del]

lemma tokens_Nil: "tokens [] = Some []"
  by (simp add: tokens.simps)
















subsection \<open>The store on the statement of Job.update\<close>









subsection \<open>The filters and the queries\<close>







subsection \<open>The columns of the tokens\<close>

lemma nth_tokens:
  assumes "i < length C"
  shows \<open>map_idx (\<lambda>colName idx. assign_token (column_name M colName) idx) 0 (map fst C) ! i
           = ''"'' @ column_name M (fst (C ! i)) @ ''"=$'' @ string_of_nat (i + 1)\<close>
  using assms by (simp add: nth_map_idx assign_token_def)

lemma column_name_string_entry:
  assumes "map_of M k = Some (JStr s)" and "s \<noteq> []"
  shows "column_name M k = s"
  using assms by (simp add: column_name_def js_index_def)

lemma column_name_falsy_entry:
  assumes "(\<exists>v. map_of M k = Some v \<and> \<not> js_truthy v)
           \<or> (map_of M k = None \<and> k \<notin> set object_prototype_names)"
  shows "column_name M k = k"
  using assms by (auto simp: column_name_def js_index_def inherited_def)

section \<open>Placeholders and parameters\<close>



section \<open>The set clause of a partial update\<close>

text \<open>
  Claim C2, as amended. For every non-empty change set \<open>C\<close> and every field map \<open>M\<close>,
  \<open>sqlForPartialUpdate\<close> returns a \<open>setCols\<close> that is exactly \<open>|C|\<close> tokens joined by a comma
  and a blank, the token of the \<open>i\<close>-th key (from 0) being \<open>"<column>"=$<i+1>\<close>, and a
  \<open>values\<close> that holds \<open>C\<close>'s values in key order. The column is \<open>M\<close>'s entry for the key
  when that entry is a non-empty string, and the key itself when the entry is falsy (such
  as the empty string) or when \<open>M\<close> has no entry for the key and the key is not a name every
  object inherits (\<open>constructor\<close>, \<open>toString\<close>, ...).
\<close>

theorem sqlForPartialUpdate_tokens:
  assumes "C \<noteq> []"
  shows \<open>\<exists>cols. sqlForPartialUpdate C M =
             Inr \<lparr>setCols = join '', '' (map (\<lambda>i. ''"'' @ cols ! i @ ''"=$'' @ string_of_nat (i + 1))
                                          [0..<length C]),
                   values' = map snd C\<rparr>
           \<and> length cols = length C
           \<and> (\<forall>i<length C.
                 (\<forall>s. map_of M (fst (C ! i)) = Some (JStr s) \<and> s \<noteq> [] \<longrightarrow> cols ! i = s)
               \<and> ((\<exists>v. map_of M (fst (C ! i)) = Some v \<and> \<not> js_truthy v)
                    \<or> (map_of M (fst (C ! i)) = None \<and> fst (C ! i) \<notin> set object_prototype_names)
                  \<longrightarrow> cols ! i = fst (C ! i)))\<close>
proof -
  let ?cols = "map (\<lambda>kv. column_name M (fst kv)) C"
  let ?toks = "map_idx (\<lambda>colName idx. assign_token (column_name M colName) idx) 0 (map fst C)"
  have "length ?toks = length [0..<length C]"
    by (simp add: length_map_idx)
  moreover have \<open>\<forall>i<length ?toks. ?toks ! i =
      map (\<lambda>i. ''"'' @ ?cols ! i @ ''"=$'' @ string_of_nat (i + 1)) [0..<length C] ! i\<close>
    by (simp add: length_map_idx nth_tokens del: upt_Suc)
  ultimately have toks: \<open>?toks = map (\<lambda>i. ''"'' @ ?cols ! i @ ''"=$'' @ string_of_nat (i + 1)) [0..<length C]\<close>
    by (simp only: list_eq_iff_nth_eq length_map)
  have "sqlForPartialUpdate C M = Inr \<lparr>setCols = join '', '' ?toks, values' = map snd C\<rparr>"
    using assms by (rule sqlForPartialUpdate_nonempty)
  then have \<open>sqlForPartialUpdate C M =
             Inr \<lparr>setCols = join '', '' (map (\<lambda>i. ''"'' @ ?cols ! i @ ''"=$'' @ string_of_nat (i + 1))
                                          [0..<length C]),
                   values' = map snd C\<rparr>\<close>
    unfolding toks .
  moreover have "length ?cols = length C"
    by simp
  moreover have "\<forall>i<length C.
                 (\<forall>s. map_of M (fst (C ! i)) = Some (JStr s) \<and> s \<noteq> [] \<longrightarrow> ?cols ! i = s)
               \<and> ((\<exists>v. map_of M (fst (C ! i)) = Some v \<and> \<not> js_truthy v)
                    \<or> (map_of M (fst (C ! i)) = None \<and> fst (C ! i) \<notin> set object_prototype_names)
                  \<longrightarrow> ?cols ! i = fst (C ! i))"
    by (simp add: column_name_string_entry column_name_falsy_entry)
  ultimately show ?thesis by blast
qed

text \<open>The witness of C2 is the scenario of the specification and of the helper's test.\<close>

theorem sqlForPartialUpdate_tokens_witness:
  \<open>[(''firstName'', JStr ''Joe''), (''age'', JNum 27)] \<noteq> []
   \<and> map_of [(''firstName'', JStr ''first_name'')] ''firstName'' = Some (JStr ''first_name'')
   \<and> ''first_name'' \<noteq> []
   \<and> map_of [(''firstName'', JStr ''first_name'')] ''age'' = None
   \<and> ''age'' \<notin> set object_prototype_names
   \<and> sqlForPartialUpdate [(''firstName'', JStr ''Joe''), (''age'', JNum 27)]
        [(''firstName'', JStr ''first_name'')]
      = Inr \<lparr>setCols = ''"first_name"=$1, "age"=$2'', values' = [JStr ''Joe'', JNum 27]\<rparr>\<close>
  using sqlForPartialUpdate_tokens [of "[(''firstName'', JStr ''Joe''), (''age'', JNum 27)]"
      "[(''firstName'', JStr ''first_name'')]"]
  by (simp add: sqlForPartialUpdate_def assign_token_def column_name_def js_index_def
      inherited_def object_prototype_names_def string_of_nat_def digit_char_def)

text \<open>
  C2 as the specification states it takes the field map's entry whenever the key is present.
  With the field map \<open>{a: ""}\<close> and the change set \<open>{a: 1}\<close> the entry is present and empty:
  the code falls back to the key and emits \<open>"a"=$1\<close>, the stated rule gives \<open>""=$1\<close>.
\<close>

theorem sqlForPartialUpdate_present_falsy_entry_counterexample:
  \<open>sqlForPartialUpdate [(''a'', JNum 1)] [(''a'', JStr '''')]
     = Inr \<lparr>setCols = ''"a"=$1'', values' = [JNum 1]\<rparr>
   \<and> spec_setCols [(''a'', JNum 1)] [(''a'', JStr '''')] = ''""=$1''
   \<and> sqlForPartialUpdate [(''a'', JNum 1)] [(''a'', JStr '''')]
     \<noteq> Inr \<lparr>setCols = spec_setCols [(''a'', JNum 1)] [(''a'', JStr '''')], values' = [JNum 1]\<rparr>\<close>
  by (simp add: sqlForPartialUpdate_def assign_token_def column_name_def js_index_def
      spec_setCols_def spec_column_name_def string_of_nat_def digit_char_def)

text \<open>
  Claim C3. For every field map, \<open>sqlForPartialUpdate\<close> called with an empty change set
  fails with \<open>BadRequestError\<close> ("No data"); the result is the error alone, no clause
  text is produced.
\<close>

theorem sqlForPartialUpdate_empty_fails:
  "sqlForPartialUpdate [] jsToSql = Inl (BadRequestError ''No data'')"
  by (simp add: sqlForPartialUpdate_def)

section \<open>Searching without filters\<close>

text \<open>
  Claim C4. A search object with none of the declared filters should give an empty
  predicate and an empty parameter list in a query that selects every row.
  \<open>Company.findAll\<close> and \<open>Job.findAll\<close> do so: they append no \<open>WHERE\<close>. \<open>Job.searchAll\<close> on
  the empty object \<open>{}\<close> also has the empty predicate and no parameter, but it writes
  \<open>WHERE\<close> in front of the empty predicate, so the text handed to the store reads
  \<open>... FROM jobs WHERE ORDER BY id\<close>, which is not a query.
\<close>

theorem searchAll_no_filters_empty_where:
  \<open>searchAll sqlForQuery [] =
     ([], Inr \<lparr>queryText =
                 ''SELECT id,'' @
                 ''\<newline>              title,'' @
                 ''\<newline>              salary,'' @
                 ''\<newline>              equity,'' @
                 ''\<newline>              company_handle AS "companyHandle"'' @
                 ''\<newline>       FROM jobs'' @
                 ''\<newline>       WHERE '' @
                 ''\<newline>       ORDER BY id'',
               parameters = []\<rparr>)
   \<and> Company_findAll [] = Inr \<lparr>queryText = Company_baseQuery @ '' ORDER BY name'', parameters = []\<rparr>
   \<and> Job_findAll [] = \<lparr>queryText = Job_query @ '' ORDER BY title'', parameters = []\<rparr>\<close>
  by (simp add: searchAll_def searchAll_query_def js_delete_def js_get_def Let_def
      Company_findAll_def Company_filters_def Job_findAll_def Job_conditions_def)

section \<open>The employee range\<close>

text \<open>
  Claim C5. When a search object gives both \<open>minEmployees\<close> and \<open>maxEmployees\<close> as numbers
  and the minimum is greater than the maximum, \<open>Company.findAll\<close> fails with
  \<open>BadRequestError\<close>; the result is the error alone, so no clause is built and no query
  reaches the store.
\<close>

theorem range_min_exceeds_max_fails:
  assumes "js_get searchCriteria ''minEmployees'' = JNum lo"
    and "js_get searchCriteria ''maxEmployees'' = JNum hi"
    and "hi < lo"
  shows "Company_findAll searchCriteria =
           Inl (BadRequestError ''Minimum employees cannot exceed maximum employees'')"
  using assms by (simp add: Company_findAll_def js_gt_def js_lt_def)

text \<open>The witness of C5 is the scenario \<open>{minEmployees: 2, maxEmployees: 1}\<close>.\<close>

theorem range_min_exceeds_max_fails_witness:
  "js_get [(''minEmployees'', JNum 2), (''maxEmployees'', JNum 1)] ''minEmployees'' = JNum 2
   \<and> js_get [(''minEmployees'', JNum 2), (''maxEmployees'', JNum 1)] ''maxEmployees'' = JNum 1
   \<and> (1::int) < 2
   \<and> Company_findAll [(''minEmployees'', JNum 2), (''maxEmployees'', JNum 1)] =
        Inl (BadRequestError ''Minimum employees cannot exceed maximum employees'')"
  using range_min_exceeds_max_fails
    [of "[(''minEmployees'', JNum 2), (''maxEmployees'', JNum 1)]" 2 1]
  by (simp add: js_get_def)

section \<open>Insertion order\<close>

text \<open>
  Claim C6. Two search objects that are equal as key-value maps give the same outcome of
  \<open>Company.findAll\<close> and of \<open>Job.findAll\<close> (the same query text and the same ordered
  parameters, or the same error), whatever the order in which their properties were
  inserted: the predicates follow the fixed order of the code's tests.
\<close>

theorem filters_independent_of_insertion_order:
  assumes "map_of fs1 = map_of fs2"
  shows "Company_findAll fs1 = Company_findAll fs2 \<and> Job_findAll fs1 = Job_findAll fs2"
proof -
  from assms have g: "js_get fs1 = js_get fs2" by (rule js_get_cong)
  have "Company_filters fs1 = Company_filters fs2"
    by (simp add: Company_filters_def g)
  moreover have "Job_conditions fs1 = Job_conditions fs2"
    by (simp add: Job_conditions_def g)
  ultimately show ?thesis
    by (simp add: Company_findAll_def Job_findAll_def g Let_def)
qed

text \<open>The witness of C6: \<open>{name: "net", minEmployees: 2}\<close> and \<open>{minEmployees: 2, name: "net"}\<close>.\<close>

theorem filters_independent_of_insertion_order_witness:
  \<open>map_of [(''name'', JStr ''net''), (''minEmployees'', JNum 2)]
     = map_of [(''minEmployees'', JNum 2), (''name'', JStr ''net'')]
   \<and> Company_findAll [(''name'', JStr ''net''), (''minEmployees'', JNum 2)]
     = Company_findAll [(''minEmployees'', JNum 2), (''name'', JStr ''net'')]
   \<and> Company_findAll [(''minEmployees'', JNum 2), (''name'', JStr ''net'')]
     = Inr \<lparr>queryText = Company_baseQuery @ '' WHERE num_employees >= $1 AND name ILIKE $2 ORDER BY name'',
            parameters = [JNum 2, JStr ''%net%'']\<rparr>
   \<and> Job_findAll [(''name'', JStr ''net''), (''minEmployees'', JNum 2)]
     = Job_findAll [(''minEmployees'', JNum 2), (''name'', JStr ''net'')]\<close>
proof -
  have h: "map_of [(''name'', JStr ''net''), (''minEmployees'', JNum 2)]
     = map_of [(''minEmployees'', JNum 2), (''name'', JStr ''net'')]"
    by (simp add: fun_eq_iff)
  from filters_independent_of_insertion_order [OF h] h show ?thesis
    by (simp add: Company_findAll_def Company_filters_def js_get_def push_filter_def wildcard_def
        string_of_nat_def digit_char_def Let_def)
qed

section \<open>The authorization gate\<close>

text \<open>
  Claim C7, as amended. A caller whose verified claim fails the required predicate gets
  \<open>UnauthorizedError\<close> from \<open>ensureAdmin\<close> (not an admin) and \<open>ForbiddenError\<close> from
  \<open>ensureAdminOrSelf\<close> (not an admin and not the user named in the route); a caller without
  a verified claim gets \<open>UnauthorizedError\<close> from both.
\<close>

theorem failing_predicate_signal_per_gate:
  "(\<not> js_truthy (js_get u ''isAdmin'') \<longrightarrow> ensureAdmin (Some u) = Some UnauthorizedError)
   \<and> (\<not> js_truthy (js_get u ''isAdmin'') \<and> js_get u ''username'' \<noteq> params_username \<longrightarrow>
        ensureAdminOrSelf (Some u) params_username = Some ForbiddenError)
   \<and> ensureAdmin None = Some UnauthorizedError
   \<and> ensureAdminOrSelf None params_username = Some UnauthorizedError"
  by (simp add: ensureAdmin_def ensureAdminOrSelf_def)

text \<open>The witness of C7: the user \<open>test\<close>, not an admin, on the route of the user \<open>wrong\<close>.\<close>

theorem failing_predicate_signal_per_gate_witness:
  "\<not> js_truthy (js_get [(''username'', JStr ''test''), (''isAdmin'', JBool False)] ''isAdmin'')
   \<and> js_get [(''username'', JStr ''test''), (''isAdmin'', JBool False)] ''username'' \<noteq> JStr ''wrong''
   \<and> ensureAdmin (Some [(''username'', JStr ''test''), (''isAdmin'', JBool False)])
       = Some UnauthorizedError
   \<and> ensureAdminOrSelf (Some [(''username'', JStr ''test''), (''isAdmin'', JBool False)]) (JStr ''wrong'')
       = Some ForbiddenError"
  using failing_predicate_signal_per_gate
    [of "[(''username'', JStr ''test''), (''isAdmin'', JBool False)]" "JStr ''wrong''"]
  by (simp add: js_get_def)

text \<open>
  C7 as the specification states it gives one signal, "unauthorized", for every gate. The
  same caller gets \<open>ForbiddenError\<close> from \<open>ensureAdminOrSelf\<close> and \<open>UnauthorizedError\<close> from
  \<open>ensureAdmin\<close>, so no single signal is the answer of both gates.
\<close>

theorem one_signal_for_every_gate_counterexample:
  "ensureAdminOrSelf (Some [(''username'', JStr ''test''), (''isAdmin'', JBool False)]) (JStr ''wrong'')
     = Some ForbiddenError
   \<and> ensureAdminOrSelf (Some [(''username'', JStr ''test''), (''isAdmin'', JBool False)]) (JStr ''wrong'')
     \<noteq> Some UnauthorizedError
   \<and> ensureAdmin (Some [(''username'', JStr ''test''), (''isAdmin'', JBool False)])
     = Some UnauthorizedError"
  by (simp add: ensureAdmin_def ensureAdminOrSelf_def js_get_def)

section \<open>Executing a partial update\<close>




section \<open>searchAll and the caller's object\<close>

text \<open>
  Claim C9. \<open>Job.searchAll\<close> deletes \<open>hasEquity\<close> from the object its caller passes in: after
  the call, whether the helper it calls fails or returns, the object has no property
  \<open>hasEquity\<close> and every other property is as before. The deletion comes before the query
  is built: the helper is applied to the object without \<open>hasEquity\<close>, so two helpers that
  agree on that object give the same call.
\<close>

theorem searchAll_deletes_hasEquity:
  "map_of (fst (searchAll sqlForQuery fields0)) = (map_of fields0)(''hasEquity'' := None)
   \<and> ''hasEquity'' \<notin> set (map fst (fst (searchAll sqlForQuery fields0)))
   \<and> (sqlForQuery (js_delete fields0 ''hasEquity'') Job_search_rules
        = sqlForQuery' (js_delete fields0 ''hasEquity'') Job_search_rules \<longrightarrow>
      searchAll sqlForQuery fields0 = searchAll sqlForQuery' fields0)"
proof (intro conjI impI)
  show "map_of (fst (searchAll sqlForQuery fields0)) = (map_of fields0)(''hasEquity'' := None)"
    by (simp add: fst_searchAll map_of_js_delete)
  show "''hasEquity'' \<notin> set (map fst (fst (searchAll sqlForQuery fields0)))"
    by (auto simp: fst_searchAll js_delete_def)
next
  assume "sqlForQuery (js_delete fields0 ''hasEquity'') Job_search_rules
        = sqlForQuery' (js_delete fields0 ''hasEquity'') Job_search_rules"
  then show "searchAll sqlForQuery fields0 = searchAll sqlForQuery' fields0"
    by (simp add: searchAll_def Let_def)
qed

text \<open>
  The witness of C9: \<open>{hasEquity: true, title: "eng"}\<close> with a helper that always fails
  and one that fails on every object but the empty one.
\<close>

theorem searchAll_deletes_hasEquity_witness:
  "(\<lambda>fs rules. Inl (BadRequestError ''x''))
       (js_delete [(''hasEquity'', JBool True), (''title'', JStr ''eng'')] ''hasEquity'') Job_search_rules
     = (\<lambda>fs rules. if fs = [] then Inr \<lparr>whereClause = [], whereValues = []\<rparr>
                    else Inl (BadRequestError ''x''))
         (js_delete [(''hasEquity'', JBool True), (''title'', JStr ''eng'')] ''hasEquity'') Job_search_rules
   \<and> searchAll (\<lambda>fs rules. Inl (BadRequestError ''x''))
        [(''hasEquity'', JBool True), (''title'', JStr ''eng'')]
     = ([(''title'', JStr ''eng'')], Inl (BadRequestError ''x''))
   \<and> searchAll (\<lambda>fs rules. if fs = [] then Inr \<lparr>whereClause = [], whereValues = []\<rparr>
                           else Inl (BadRequestError ''x''))
        [(''hasEquity'', JBool True), (''title'', JStr ''eng'')]
     = ([(''title'', JStr ''eng'')], Inl (BadRequestError ''x''))"
proof -
  let ?f = "[(''hasEquity'', JBool True), (''title'', JStr ''eng'')]"
  let ?q = "\<lambda>(fs :: jsobj) (rules :: (string \<times> filter_rule) list).
              (Inl (BadRequestError ''x'') :: error + where_clause)"
  let ?q' = "\<lambda>(fs :: jsobj) (rules :: (string \<times> filter_rule) list).
               if fs = [] then Inr \<lparr>whereClause = [], whereValues = []\<rparr>
               else Inl (BadRequestError ''x'')"
  have h: "?q (js_delete ?f ''hasEquity'') Job_search_rules
             = ?q' (js_delete ?f ''hasEquity'') Job_search_rules"
    by (simp add: js_delete_def)
  have v: "searchAll ?q ?f = ([(''title'', JStr ''eng'')], Inl (BadRequestError ''x''))"
    by (simp add: searchAll_def js_delete_def js_get_def Let_def)
  from searchAll_deletes_hasEquity [of ?q ?f ?q'] h v show ?thesis
    by simp
qed

section \<open>Falsy entries of the field map\<close>

text \<open>
  Claim C10. In \<open>sqlForPartialUpdate\<close> the fallback to the key applies whenever the field
  map's value for the key is falsy, not only when the field map has nothing for the key:
  for a key whose entry is the empty string (or \<open>undefined\<close>, \<open>null\<close>, \<open>false\<close>, \<open>0\<close>), and
  for a key without an entry that is not a name every object inherits, the token emitted at
  the key's position has the key itself as its column.
\<close>

theorem falsy_mapping_falls_back_to_key:
  assumes "i < length C"
    and "(\<exists>v. map_of M (fst (C ! i)) = Some v \<and> \<not> js_truthy v)
         \<or> (map_of M (fst (C ! i)) = None \<and> fst (C ! i) \<notin> set object_prototype_names)"
  shows \<open>\<exists>toks. sqlForPartialUpdate C M = Inr \<lparr>setCols = join '', '' toks, values' = map snd C\<rparr>
           \<and> length toks = length C
           \<and> toks ! i = ''"'' @ fst (C ! i) @ ''"=$'' @ string_of_nat (i + 1)\<close>
proof -
  let ?toks = "map_idx (\<lambda>colName idx. assign_token (column_name M colName) idx) 0 (map fst C)"
  from assms(1) have "C \<noteq> []" by auto
  then have "sqlForPartialUpdate C M = Inr \<lparr>setCols = join '', '' ?toks, values' = map snd C\<rparr>"
    by (rule sqlForPartialUpdate_nonempty)
  moreover have "length ?toks = length C"
    by (simp add: length_map_idx)
  moreover have \<open>?toks ! i = ''"'' @ fst (C ! i) @ ''"=$'' @ string_of_nat (i + 1)\<close>
    unfolding nth_tokens [OF assms(1)] column_name_falsy_entry [OF assms(2)] ..
  ultimately show ?thesis by blast
qed

text \<open>The witness of C10: the field map \<open>{a: ""}\<close> and the change set \<open>{a: 1}\<close>.\<close>

theorem falsy_mapping_falls_back_to_key_witness:
  \<open>(0::nat) < length [(''a'', JNum 1)]
   \<and> map_of [(''a'', JStr '''')] (fst ([(''a'', JNum 1)] ! 0)) = Some (JStr '''')
   \<and> \<not> js_truthy (JStr '''')
   \<and> sqlForPartialUpdate [(''a'', JNum 1)] [(''a'', JStr '''')]
       = Inr \<lparr>setCols = ''"a"=$1'', values' = [JNum 1]\<rparr>\<close>
  using falsy_mapping_falls_back_to_key [of 0 "[(''a'', JNum 1)]" "[(''a'', JStr '''')]"]
  by (simp add: sqlForPartialUpdate_def assign_token_def column_name_def js_index_def
      string_of_nat_def digit_char_def)

end
